theory Spec2Isabelle
  imports Main "HOL-Library.Word"
begin

unbundle bit_operations_syntax

section \<open>Common notions\<close>

text \<open>
  A C function of this repository either returns to its caller or ends the process
  (\<^verbatim>\<open>abort()\<close>). Both are values of the model.
\<close>

datatype 'a outcome = Returned 'a | Aborted

text \<open>
  \<^verbatim>\<open>size_t\<close> is an unsigned machine word of some width \<open>'a\<close> (64 bits on the
  platforms the wrapper is built for) and \<^verbatim>\<open>ptrdiff_t\<close> is the same word read as
  two's complement. A pointer returned by the allocator is \<open>None\<close> for \<^verbatim>\<open>NULL\<close> and
  \<open>Some n\<close> for a live block, of which the model keeps the byte size \<open>n\<close> that was
  requested.
\<close>

type_synonym 'a ptr = "'a word option"

definition SIZE_MAX :: "'a::len word" where
  "SIZE_MAX = - 1"

definition ENOMEM :: int where
  "ENOMEM = 12"

section \<open>gnulib\_stubs.c\<close>

subsection \<open>reallocarray\<close>

text \<open>
  \<^verbatim>\<open>reallocarray(ptr, nmemb, size)\<close>. The C library's \<^verbatim>\<open>realloc\<close> is a parameter: it
  maps the old pointer, the byte size and \<^verbatim>\<open>errno\<close> to the new pointer and \<^verbatim>\<open>errno\<close>.
  The result is the returned pointer and the value of \<^verbatim>\<open>errno\<close> afterwards.
\<close>

definition reallocarray ::
  "('a::len ptr \<Rightarrow> 'a word \<Rightarrow> int \<Rightarrow> 'a ptr \<times> int) \<Rightarrow> 'a ptr \<Rightarrow> 'a word \<Rightarrow> 'a word \<Rightarrow> int
     \<Rightarrow> 'a ptr \<times> int" where
  "reallocarray realloc_f p nmemb sz errno =
     (if nmemb \<noteq> 0 \<and> sz > SIZE_MAX div nmemb then (None, ENOMEM)
      else realloc_f p (nmemb * sz) errno)"

subsection \<open>The xmalloc family\<close>

text \<open>
  The allocator is a parameter \<open>heap\<close>: \<open>heap n\<close> holds when a request of \<open>n\<close> bytes
  is granted. \<^verbatim>\<open>malloc\<close> and \<^verbatim>\<open>realloc\<close> return a block of the requested size or
  \<^verbatim>\<open>NULL\<close>.
\<close>

definition malloc :: "('a::len word \<Rightarrow> bool) \<Rightarrow> 'a word \<Rightarrow> 'a ptr" where
  "malloc heap n = (if heap n then Some n else None)"

definition realloc :: "('a::len word \<Rightarrow> bool) \<Rightarrow> 'a ptr \<Rightarrow> 'a word \<Rightarrow> 'a ptr" where
  "realloc heap p n = (if heap n then Some n else None)"

text \<open>\<^verbatim>\<open>xalloc_die\<close> prints a diagnostic and calls \<^verbatim>\<open>abort()\<close>: it never returns.\<close>

definition xalloc_die :: "'r outcome" where
  "xalloc_die = Aborted"

definition xmalloc :: "('a::len word \<Rightarrow> bool) \<Rightarrow> 'a word \<Rightarrow> 'a ptr outcome" where
  "xmalloc heap n =
     (let p = malloc heap n in
      if p = None \<and> n \<noteq> 0 then xalloc_die else Returned p)"

definition xrealloc :: "('a::len word \<Rightarrow> bool) \<Rightarrow> 'a ptr \<Rightarrow> 'a word \<Rightarrow> 'a ptr outcome" where
  "xrealloc heap p n =
     (let r = realloc heap p n in
      if r = None \<and> n \<noteq> 0 then xalloc_die else Returned r)"

definition xnmalloc :: "('a::len word \<Rightarrow> bool) \<Rightarrow> 'a word \<Rightarrow> 'a word \<Rightarrow> 'a ptr outcome" where
  "xnmalloc heap n s = xmalloc heap (n * s)"

text \<open>
  \<^verbatim>\<open>xpalloc(pa, pn, n_incr_min, n_max, s)\<close>. \<open>n\<close> is the value of \<^verbatim>\<open>*pn\<close> on entry;
  the result pairs the value stored to \<^verbatim>\<open>*pn\<close> with the outcome of the
  \<^verbatim>\<open>xrealloc\<close> call. \<open>n_max\<close> is a \<^verbatim>\<open>ptrdiff_t\<close>: \<open>sint\<close> reads its sign and the
  cast \<^verbatim>\<open>(size_t)n_max\<close> is the word itself.
\<close>

definition xpalloc ::
  "('a::len word \<Rightarrow> bool) \<Rightarrow> 'a ptr \<Rightarrow> 'a word \<Rightarrow> 'a word \<Rightarrow> 'a word \<Rightarrow> 'a word
     \<Rightarrow> 'a word \<times> 'a ptr outcome" where
  "xpalloc heap pa n n_incr_min n_max s =
     (let n_incr = n;
          n_incr = (if n_incr < n_incr_min then n_incr_min else n_incr);
          n_incr = (if 0 \<le> sint n_max \<and> n + n_incr > n_max then n_max - n else n_incr);
          new_n = n + n_incr
      in (new_n, xrealloc heap pa (new_n * s)))"

definition xreallocarray ::
  "('a::len word \<Rightarrow> bool) \<Rightarrow> 'a ptr \<Rightarrow> 'a word \<Rightarrow> 'a word \<Rightarrow> 'a ptr outcome" where
  "xreallocarray heap p n s =
     (if s \<noteq> 0 \<and> n > (- 1) div s then xalloc_die
      else xrealloc heap p (n * s))"

definition x2realloc :: "('a::len word \<Rightarrow> bool) \<Rightarrow> 'a ptr \<Rightarrow> 'a word \<Rightarrow> 'a word \<times> 'a ptr outcome" where
  "x2realloc heap p n = xpalloc heap p n 1 (- 1) 1"

definition x2nrealloc ::
  "('a::len word \<Rightarrow> bool) \<Rightarrow> 'a ptr \<Rightarrow> 'a word \<Rightarrow> 'a word \<Rightarrow> 'a word \<times> 'a ptr outcome" where
  "x2nrealloc heap p n s = xpalloc heap p n 1 (- 1) s"

section \<open>gnu\_grep\_wrapper.c\<close>

subsection \<open>State\<close>

text \<open>
  The file-level variables of the wrapper. \<^verbatim>\<open>match_icase\<close>, \<^verbatim>\<open>match_words\<close>,
  \<^verbatim>\<open>match_lines\<close>, \<^verbatim>\<open>eolbyte\<close> and \<^verbatim>\<open>localeinfo\<close> are external globals that the
  search engine reads; \<^verbatim>\<open>initialized\<close> (local to \<^verbatim>\<open>gnu_grep_init\<close>),
  \<^verbatim>\<open>error_occurred\<close> and \<^verbatim>\<open>error_message\<close> are \<^verbatim>\<open>static\<close>. Of
  \<^verbatim>\<open>struct localeinfo\<close> the model keeps the fields the wrapper writes.
\<close>

record localeinfo_t =
  multibyte :: bool
  simple :: bool
  using_utf8 :: bool
  sbclen :: "int list"

record gnu_state =
  match_icase :: bool
  match_words :: bool
  match_lines :: bool
  eolbyte :: char
  localeinfo :: localeinfo_t
  initialized :: bool
  error_occurred :: int
  error_message :: string

text \<open>The values the C initialisers give: zero everywhere but \<^verbatim>\<open>eolbyte\<close>.\<close>

definition initial_state :: gnu_state where
  "initial_state =
     \<lparr>match_icase = False, match_words = False, match_lines = False, eolbyte = CHR 0x0A,
      localeinfo = \<lparr>multibyte = False, simple = False, using_utf8 = False,
                    sbclen = replicate 256 0\<rparr>,
      initialized = False, error_occurred = 0, error_message = []\<rparr>"

record 'h GnuSearchContext =
  compiled :: "'h option"
  is_fixed :: bool

subsection \<open>The search engine\<close>

text \<open>
  \<^verbatim>\<open>Fcompile\<close>, \<^verbatim>\<open>GEAcompile\<close>, \<^verbatim>\<open>Fexecute\<close> and \<^verbatim>\<open>EGexecute\<close> are declared
  \<^verbatim>\<open>extern\<close>: the engine is a parameter of the model. Each entry point sees the
  globals and its arguments. It either returns, or reports a fatal condition, which the
  engine does by calling \<^verbatim>\<open>xalloc_die\<close>. A compile returns the handle (\<open>None\<close> for
  \<^verbatim>\<open>NULL\<close>); an execute returns its \<^verbatim>\<open>ptrdiff_t\<close> result together with the value it
  leaves in \<^verbatim>\<open>*match_size\<close> (the wrapper passes \<^verbatim>\<open>NULL\<close> for \<^verbatim>\<open>start_ptr\<close>). The
  syntax constants of \<^verbatim>\<open>regex.h\<close> come with the engine.
\<close>

datatype 'r engine_result = Ret 'r | Fatal

record 'h engine =
  Fcompile :: "gnu_state \<Rightarrow> string \<Rightarrow> int \<Rightarrow> 64 word \<Rightarrow> bool \<Rightarrow> 'h option engine_result"
  GEAcompile :: "gnu_state \<Rightarrow> string \<Rightarrow> int \<Rightarrow> 64 word \<Rightarrow> bool \<Rightarrow> 'h option engine_result"
  Fexecute :: "gnu_state \<Rightarrow> 'h \<Rightarrow> string \<Rightarrow> int \<Rightarrow> (int \<times> int) engine_result"
  EGexecute :: "gnu_state \<Rightarrow> 'h \<Rightarrow> string \<Rightarrow> int \<Rightarrow> (int \<times> int) engine_result"
  RE_SYNTAX_GREP :: "64 word"
  RE_SYNTAX_EGREP :: "64 word"
  RE_ICASE :: "64 word"

subsection \<open>Initialisation and compilation\<close>

text \<open>
  \<^verbatim>\<open>gnu_grep_init\<close> also calls the engine's \<^verbatim>\<open>wordinit\<close>, which fills a table of the
  engine and writes none of the variables above.
\<close>

definition gnu_grep_init :: "gnu_state \<Rightarrow> gnu_state" where
  "gnu_grep_init s =
     (if initialized s then s
      else s\<lparr>localeinfo := \<lparr>multibyte = False, simple = True, using_utf8 = False,
                              sbclen = replicate 256 1\<rparr>,
             initialized := True\<rparr>)"

text \<open>
  \<^verbatim>\<open>setjmp(error_jmp)\<close> returns 0 when it is called. It returns non-zero only after a
  \<^verbatim>\<open>longjmp(error_jmp, _)\<close>; \<^verbatim>\<open>error_jmp\<close> is \<^verbatim>\<open>static\<close> and no function of the
  sources calls \<^verbatim>\<open>longjmp\<close>, so the branch under it is never entered and has no
  counterpart below.

  \<open>copy_ok\<close> and \<open>ctx_ok\<close> say whether the \<^verbatim>\<open>malloc\<close> of the newline-terminated copy
  and of the context succeed. \<open>pattern\<close> holds the bytes at the pattern pointer, of
  which \<^verbatim>\<open>memcpy\<close> copies the first \<open>pattern_len\<close>; a \<^verbatim>\<open>long\<close> is an \<open>int\<close>, no
  arithmetic of the wrapper on it comes near its bounds.
\<close>

definition gnu_grep_compile_fixed ::
  "'h engine \<Rightarrow> bool \<Rightarrow> bool \<Rightarrow> string \<Rightarrow> int \<Rightarrow> bool \<Rightarrow> gnu_state
     \<Rightarrow> ('h GnuSearchContext option \<times> gnu_state) outcome" where
  "gnu_grep_compile_fixed E copy_ok ctx_ok pattern pattern_len case_insensitive s0 =
     (let s = gnu_grep_init s0;
          s = s\<lparr>match_icase := case_insensitive, match_words := False, match_lines := False\<rparr>
      in if \<not> copy_ok then Returned (None, s)
         else
           let pattern_with_nl = take (nat pattern_len) pattern @ [CHR 0x0A];
               s = s\<lparr>error_occurred := 0\<rparr>
           in if \<not> ctx_ok then Returned (None, s)
              else
                (case Fcompile E s pattern_with_nl (pattern_len + 1) 0 False of
                   Fatal \<Rightarrow> xalloc_die
                 | Ret c \<Rightarrow>
                     if c = None then Returned (None, s)
                     else Returned (Some \<lparr>compiled = c, is_fixed = True\<rparr>, s)))"

text \<open>The syntax bits \<^verbatim>\<open>gnu_grep_compile_regex\<close> computes for \<^verbatim>\<open>GEAcompile\<close>.\<close>

definition regex_syntax :: "'h engine \<Rightarrow> bool \<Rightarrow> bool \<Rightarrow> 64 word" where
  "regex_syntax E extended case_insensitive =
     (let syntax = (if extended then RE_SYNTAX_EGREP E else RE_SYNTAX_GREP E);
          syntax = (if case_insensitive then syntax OR RE_ICASE E else syntax)
      in syntax)"

definition gnu_grep_compile_regex ::
  "'h engine \<Rightarrow> bool \<Rightarrow> string \<Rightarrow> int \<Rightarrow> bool \<Rightarrow> bool \<Rightarrow> gnu_state
     \<Rightarrow> ('h GnuSearchContext option \<times> gnu_state) outcome" where
  "gnu_grep_compile_regex E ctx_ok pattern pattern_len case_insensitive extended s0 =
     (let s = gnu_grep_init s0;
          s = s\<lparr>match_icase := case_insensitive, match_words := False, match_lines := False\<rparr>;
          s = s\<lparr>error_occurred := 0\<rparr>
      in if \<not> ctx_ok then Returned (None, s)
         else
           let syntax = regex_syntax E extended case_insensitive
           in (case GEAcompile E s pattern pattern_len syntax False of
                 Fatal \<Rightarrow> xalloc_die
               | Ret c \<Rightarrow>
                   if c = None then Returned (None, s)
                   else Returned (Some \<lparr>compiled = c, is_fixed = False\<rparr>, s)))"

subsection \<open>Execution\<close>

text \<open>
  \<open>ctx\<close> and \<open>text\<close> are pointers (\<open>None\<close> for \<^verbatim>\<open>NULL\<close>). \<open>match_start\<close> is the
  caller's out-parameter: \<open>None\<close> when the caller passes \<^verbatim>\<open>NULL\<close>, otherwise the
  value currently stored there. The result is the returned \<^verbatim>\<open>long\<close>, the out-parameter
  afterwards, and the state.
\<close>

definition gnu_grep_execute ::
  "'h engine \<Rightarrow> 'h GnuSearchContext option \<Rightarrow> string option \<Rightarrow> int \<Rightarrow> int option \<Rightarrow> gnu_state
     \<Rightarrow> (int \<times> int option \<times> gnu_state) outcome" where
  "gnu_grep_execute E ctx text text_len match_start s0 =
     (if ctx = None \<or> compiled (the ctx) = None \<or> text = None \<or> text_len \<le> 0
      then Returned (- 2, match_start, s0)
      else
        let c = the ctx; h = the (compiled c); t = the text;
            s = s0\<lparr>error_occurred := 0\<rparr>
        in (case (if is_fixed c then Fexecute E s h t text_len
                  else EGexecute E s h t text_len) of
              Fatal \<Rightarrow> xalloc_die
            | Ret (result, match_size) \<Rightarrow>
                if result < 0 then Returned (- 1, match_start, s)
                else Returned (match_size,
                               (if match_start \<noteq> None then Some result else None), s)))"

definition gnu_grep_free :: "'h GnuSearchContext option \<Rightarrow> gnu_state \<Rightarrow> gnu_state" where
  "gnu_grep_free ctx s = s"

definition gnu_grep_get_error :: "gnu_state \<Rightarrow> string option" where
  "gnu_grep_get_error s = (if error_occurred s \<noteq> 0 then Some (error_message s) else None)"

subsection \<open>Sequences of calls\<close>

text \<open>
  A client of the backend issues compile, execute and free calls one after the other; a
  call that ends the process ends the sequence. \<^verbatim>\<open>gnu_grep_get_error\<close> reads the state
  such a sequence leaves.
\<close>

datatype compile_request =
    Fixed bool bool string int bool
  | Regex bool string int bool bool

fun compile ::
  "'h engine \<Rightarrow> compile_request \<Rightarrow> gnu_state \<Rightarrow> ('h GnuSearchContext option \<times> gnu_state) outcome"
where
  "compile E (Fixed copy_ok ctx_ok p n ci) s = gnu_grep_compile_fixed E copy_ok ctx_ok p n ci s"
| "compile E (Regex ctx_ok p n ci ext) s = gnu_grep_compile_regex E ctx_ok p n ci ext s"

datatype 'h call =
    Compile compile_request
  | Execute "'h GnuSearchContext option" "string option" int "int option"
  | Free "'h GnuSearchContext option"

fun call_state :: "'h engine \<Rightarrow> 'h call \<Rightarrow> gnu_state \<Rightarrow> gnu_state outcome" where
  "call_state E (Compile r) s =
     (case compile E r s of Aborted \<Rightarrow> Aborted | Returned (_, s') \<Rightarrow> Returned s')"
| "call_state E (Execute ctx text text_len match_start) s =
     (case gnu_grep_execute E ctx text text_len match_start s of
        Aborted \<Rightarrow> Aborted | Returned (_, _, s') \<Rightarrow> Returned s')"
| "call_state E (Free ctx) s = Returned (gnu_grep_free ctx s)"

fun run :: "'h engine \<Rightarrow> 'h call list \<Rightarrow> gnu_state \<Rightarrow> gnu_state outcome" where
  "run E [] s = Returned s"
| "run E (c # cs) s =
     (case call_state E c s of Aborted \<Rightarrow> Aborted | Returned s' \<Rightarrow> run E cs s')"

text \<open>What the caller of an execute observes: the returned value and the out-parameter.\<close>

fun observed :: "(int \<times> int option \<times> gnu_state) outcome \<Rightarrow> (int \<times> int option) outcome" where
  "observed Aborted = Aborted"
| "observed (Returned (r, m, s)) = Returned (r, m)"

fun final_state :: "('r \<times> gnu_state) outcome \<Rightarrow> gnu_state option" where
  "final_state Aborted = None"
| "final_state (Returned (r, s)) = Some s"

text \<open>
  The globals as the engine finds them when a compile call with the given
  case-insensitivity flag reaches it, and the flag a request carries.
\<close>

definition compile_globals :: "gnu_state \<Rightarrow> bool \<Rightarrow> gnu_state" where
  "compile_globals s case_insensitive =
     (gnu_grep_init s)\<lparr>match_icase := case_insensitive, match_words := False,
                        match_lines := False, error_occurred := 0\<rparr>"

fun request_icase :: "compile_request \<Rightarrow> bool" where
  "request_icase (Fixed copy_ok ctx_ok p n ci) = ci"
| "request_icase (Regex ctx_ok p n ci ext) = ci"

subsection \<open>A line-oriented engine\<close>

text \<open>
  Modelled from the spec: the engine behind \<^verbatim>\<open>Fexecute\<close>/\<^verbatim>\<open>EGexecute\<close> is not part of
  the wrapper's sources. The spec (and the comment above \<^verbatim>\<open>gnu_grep_execute\<close>) say it
  is line-oriented: it reports the offset of the start of the first line that contains a
  hit and the length of that line, newline included, and a negative result when no line
  matches. \<open>line_engine\<close> is such an engine for literal patterns; its handle is the
  literal, without the newline that \<^verbatim>\<open>Fcompile\<close> is handed. The syntax constants
  have the values of \<^verbatim>\<open>regex.h\<close>.
\<close>

fun prefix_at :: "string \<Rightarrow> string \<Rightarrow> bool" where
  "prefix_at [] t = True"
| "prefix_at (p # ps) [] = False"
| "prefix_at (p # ps) (c # cs) = (p = c \<and> prefix_at ps cs)"

fun occurs :: "string \<Rightarrow> string \<Rightarrow> bool" where
  "occurs p [] = prefix_at p []"
| "occurs p (c # cs) = (prefix_at p (c # cs) \<or> occurs p cs)"

fun line_scan :: "string \<Rightarrow> string \<Rightarrow> int \<Rightarrow> string \<Rightarrow> int \<times> int" where
  "line_scan pat acc start [] =
     (if acc \<noteq> [] \<and> occurs pat (rev acc) then (start, int (length acc)) else (- 1, 0))"
| "line_scan pat acc start (c # cs) =
     (if c = CHR 0x0A
      then (if occurs pat (rev acc) then (start, int (length acc) + 1)
            else line_scan pat [] (start + int (length acc) + 1) cs)
      else line_scan pat (c # acc) start cs)"

definition line_engine :: "string engine" where
  "line_engine =
     \<lparr>Fcompile = (\<lambda>s p n syn exact. Ret (Some (takeWhile (\<lambda>c. c \<noteq> CHR 0x0A) (take (nat n) p)))),
      GEAcompile = (\<lambda>s p n syn exact. Ret (Some (take (nat n) p))),
      Fexecute = (\<lambda>s h t n. Ret (line_scan h [] 0 (take (nat n) t))),
      EGexecute = (\<lambda>s h t n. Ret (line_scan h [] 0 (take (nat n) t))),
      RE_SYNTAX_GREP = 0x10306, RE_SYNTAX_EGREP = 0x1A91C, RE_ICASE = 0x400000\<rparr>"

text \<open>An engine whose every entry point reports a fatal condition.\<close>

definition fatal_engine :: "nat engine" where
  "fatal_engine =
     \<lparr>Fcompile = (\<lambda>s p n syn exact. Fatal), GEAcompile = (\<lambda>s p n syn exact. Fatal),
      Fexecute = (\<lambda>s h t n. Fatal), EGexecute = (\<lambda>s h t n. Fatal),
      RE_SYNTAX_GREP = 0x10306, RE_SYNTAX_EGREP = 0x1A91C, RE_ICASE = 0x400000\<rparr>"

text \<open>An engine that rejects every pattern by returning \<^verbatim>\<open>NULL\<close>.\<close>

definition null_engine :: "nat engine" where
  "null_engine =
     \<lparr>Fcompile = (\<lambda>s p n syn exact. Ret None), GEAcompile = (\<lambda>s p n syn exact. Ret None),
      Fexecute = (\<lambda>s h t n. Ret (- 1, 0)), EGexecute = (\<lambda>s h t n. Ret (- 1, 0)),
      RE_SYNTAX_GREP = 0x10306, RE_SYNTAX_EGREP = 0x1A91C, RE_ICASE = 0x400000\<rparr>"

text \<open>
  A variant of the line-oriented engine whose \<^verbatim>\<open>Fexecute\<close> reads \<^verbatim>\<open>match_icase\<close> when
  it searches, and folds upper-case ASCII letters of pattern and text when the flag is set.
  It is not GNU grep's engine: it shows what the wrapper lets an engine of that kind do.
\<close>

definition to_lower :: "char \<Rightarrow> char" where
  "to_lower c =
     (let k = of_char c :: nat in if 65 \<le> k \<and> k \<le> 90 then char_of (k + 32) else c)"

definition folding_engine :: "string engine" where
  "folding_engine =
     line_engine\<lparr>Fexecute := (\<lambda>s h t n.
        if match_icase s
        then Ret (line_scan (map to_lower h) [] 0 (map to_lower (take (nat n) t)))
        else Ret (line_scan h [] 0 (take (nat n) t)))\<rparr>"

section \<open>pcre2\_wrapper.c\<close>

subsection \<open>The PCRE2 library\<close>

text \<open>
  The library is a parameter. \<^verbatim>\<open>pcre2_compile\<close> returns the compiled code (\<open>None\<close>
  for \<^verbatim>\<open>NULL\<close>) and the values it stores through its error-code and error-offset
  pointers; \<^verbatim>\<open>pcre2_match\<close> returns its status and the first two entries of the
  output vector it leaves in the match data; \<^verbatim>\<open>pcre2_get_error_message\<close> returns the
  text it writes into a buffer of the given length. The two allocation functions return
  \<open>None\<close> for \<^verbatim>\<open>NULL\<close>. The option bits and \<^verbatim>\<open>PCRE2_ERROR_NOMATCH\<close> have the values
  of \<^verbatim>\<open>pcre2.h\<close>.
\<close>

record 'c pcre2_lib =
  pcre2_compile :: "string \<Rightarrow> nat \<Rightarrow> 32 word \<Rightarrow> 'c option \<times> int \<times> nat"
  pcre2_match_data_create_from_pattern :: "'c \<Rightarrow> nat option"
  pcre2_match_context_create :: "nat option"
  pcre2_get_error_message :: "int \<Rightarrow> nat \<Rightarrow> string"
  pcre2_match :: "'c \<Rightarrow> string \<Rightarrow> nat \<Rightarrow> nat \<Rightarrow> int \<times> nat \<times> nat"

definition PCRE2_UTF :: "32 word" where
  "PCRE2_UTF = 0x00080000"

definition PCRE2_CASELESS :: "32 word" where
  "PCRE2_CASELESS = 0x00000008"

definition PCRE2_MULTILINE :: "32 word" where
  "PCRE2_MULTILINE = 0x00000400"

definition PCRE2_ERROR_NOMATCH :: int where
  "PCRE2_ERROR_NOMATCH = - 1"

record 'c PcreContext =
  code :: "'c option"
  match_data :: "nat option"
  match_context :: "nat option"
  error_code :: int
  error_offset :: nat

record PcreMatch =
  start :: nat
  end' :: nat
  valid :: int

subsection \<open>Compilation and its error queries\<close>

definition compile_flags :: "int \<Rightarrow> int \<Rightarrow> 32 word" where
  "compile_flags case_insensitive multiline =
     (let flags = PCRE2_UTF;
          flags = (if case_insensitive \<noteq> 0 then flags OR PCRE2_CASELESS else flags);
          flags = (if multiline \<noteq> 0 then flags OR PCRE2_MULTILINE else flags)
      in flags)"

text \<open>
  \<open>ctx_ok\<close> says whether the \<^verbatim>\<open>malloc\<close> of the context succeeds. The JIT compilation
  changes nothing the wrapper looks at, and its status is ignored.
\<close>

definition pcre2_compile_pattern ::
  "'c pcre2_lib \<Rightarrow> bool \<Rightarrow> string \<Rightarrow> nat \<Rightarrow> int \<Rightarrow> int \<Rightarrow> 'c PcreContext option" where
  "pcre2_compile_pattern L ctx_ok pattern pattern_len case_insensitive multiline =
     (if \<not> ctx_ok then None
      else
        let ctx = \<lparr>code = None, match_data = None, match_context = None,
                   error_code = 0, error_offset = 0\<rparr>;
            flags = compile_flags case_insensitive multiline;
            (c, ec, eo) = pcre2_compile L pattern pattern_len flags;
            ctx = ctx\<lparr>code := c, error_code := ec, error_offset := eo\<rparr>
        in if code ctx = None then Some ctx
           else
             let ctx = ctx\<lparr>match_data := pcre2_match_data_create_from_pattern L (the (code ctx))\<rparr>;
                 ctx = ctx\<lparr>match_context := pcre2_match_context_create L\<rparr>
             in if match_data ctx = None \<or> match_context ctx = None then None
                else Some ctx)"

definition pcre2_is_valid :: "'c PcreContext option \<Rightarrow> int" where
  "pcre2_is_valid ctx = (if ctx \<noteq> None \<and> code (the ctx) \<noteq> None then 1 else 0)"

text \<open>
  \<open>buffer\<close> is the caller's buffer: \<open>None\<close> for \<^verbatim>\<open>NULL\<close>, otherwise the C string it
  holds. The result is the buffer afterwards.
\<close>

definition pcre2_wrapper_get_error_message ::
  "'c pcre2_lib \<Rightarrow> 'c PcreContext option \<Rightarrow> string option \<Rightarrow> nat \<Rightarrow> string option" where
  "pcre2_wrapper_get_error_message L ctx buffer buffer_len =
     (if ctx = None \<or> buffer = None \<or> buffer_len = 0 then buffer
      else if code (the ctx) \<noteq> None then Some []
      else Some (pcre2_get_error_message L (error_code (the ctx)) buffer_len))"

definition pcre2_get_error_offset :: "'c PcreContext option \<Rightarrow> nat" where
  "pcre2_get_error_offset ctx = (if ctx \<noteq> None then error_offset (the ctx) else 0)"

subsection \<open>Matching\<close>

text \<open>
  \<open>result\<close> is the caller's \<^verbatim>\<open>PcreMatch\<close>: \<open>None\<close> for \<^verbatim>\<open>NULL\<close>, otherwise its
  contents. The function returns its status and the contents afterwards.
\<close>

definition pcre2_find_first ::
  "'c pcre2_lib \<Rightarrow> 'c PcreContext option \<Rightarrow> string option \<Rightarrow> nat \<Rightarrow> nat \<Rightarrow> PcreMatch option
     \<Rightarrow> int \<times> PcreMatch option" where
  "pcre2_find_first L ctx text text_len start_offset result =
     (if ctx = None \<or> code (the ctx) = None \<or> text = None \<or> result = None then (- 1, result)
      else
        let r = (the result)\<lparr>valid := 0\<rparr>;
            (rc, ov0, ov1) = pcre2_match L (the (code (the ctx))) (the text) text_len start_offset
        in if rc < 0 then (if rc = PCRE2_ERROR_NOMATCH then (0, Some r) else (rc, Some r))
           else (1, Some (r\<lparr>start := ov0, end' := ov1, valid := 1\<rparr>)))"

text \<open>
  The loop of \<^verbatim>\<open>pcre2_find_all\<close>. Nothing in the wrapper bounds the offsets the
  library reports, so the loop need not end for an arbitrary library: it is a partial
  function, \<open>None\<close> when it runs forever. \<open>results\<close> are the entries written so far,
  \<^verbatim>\<open>results[0]\<close> to \<^verbatim>\<open>results[count - 1]\<close>; the value is the returned \<^verbatim>\<open>int\<close>
  together with the entries written.

  \<^verbatim>\<open>count\<close> is an \<^verbatim>\<open>int\<close>, a 32-bit word read as two's complement. The cast
  \<^verbatim>\<open>(size_t)count\<close> to the 64-bit \<^verbatim>\<open>size_t\<close> is \<open>size_t_of_int\<close>. C leaves
  \<^verbatim>\<open>count++\<close> undefined when \<^verbatim>\<open>count\<close> is \<^verbatim>\<open>INT_MAX\<close>; the word wraps there, and
  the properties proved below are about texts too short to reach it.
\<close>

definition size_t_of_int :: "32 word \<Rightarrow> nat" where
  "size_t_of_int i = nat (sint i mod 2 ^ 64)"

partial_function (option) find_all_loop ::
  "'c pcre2_lib \<Rightarrow> 'c \<Rightarrow> string \<Rightarrow> nat \<Rightarrow> nat \<Rightarrow> nat \<Rightarrow> 32 word \<Rightarrow> PcreMatch list
     \<Rightarrow> (int \<times> PcreMatch list) option" where
  "find_all_loop L c text text_len max_results offset count results =
     (if offset < text_len \<and> size_t_of_int count < max_results then
        (case pcre2_match L c text text_len offset of
           (rc, ov0, ov1) \<Rightarrow>
             if rc < 0 then
               (if rc = PCRE2_ERROR_NOMATCH then Some (sint count, results)
                else Some (rc, results))
             else
               find_all_loop L c text text_len max_results
                 (if ov0 = ov1 then ov1 + 1 else ov1) (count + 1)
                 (results @ [\<lparr>start = ov0, end' = ov1, valid = 1\<rparr>]))
      else Some (sint count, results))"

text \<open>\<open>results_ok\<close> says that the \<^verbatim>\<open>results\<close> pointer is not \<^verbatim>\<open>NULL\<close>.\<close>

definition pcre2_find_all ::
  "'c pcre2_lib \<Rightarrow> 'c PcreContext option \<Rightarrow> string option \<Rightarrow> nat \<Rightarrow> bool \<Rightarrow> nat
     \<Rightarrow> (int \<times> PcreMatch list) option" where
  "pcre2_find_all L ctx text text_len results_ok max_results =
     (if ctx = None \<or> code (the ctx) = None \<or> text = None \<or> \<not> results_ok then Some (- 1, [])
      else find_all_loop L (the (code (the ctx))) (the text) text_len max_results 0 0 [])"


subsection \<open>A library for the empty pattern\<close>

text \<open>
  Modelled from the spec: PCRE2 itself is not part of the wrapper's sources.
  \<open>empty_pattern_lib\<close> stands for the library with a compiled pattern that matches the
  empty string at every position: a match at \<open>offset\<close> is the span \<open>(offset, offset)\<close>
  for every offset up to the end of the text, and an offset past the end is an error
  (\<^verbatim>\<open>PCRE2_ERROR_BADOFFSET\<close>). \<open>rejecting_lib\<close> is the library on a pattern it
  rejects, with the error code and offset PCRE2 gives for \<^verbatim>\<open>a(b\<close>.
\<close>

definition empty_pattern_lib :: "nat pcre2_lib" where
  "empty_pattern_lib =
     \<lparr>pcre2_compile = (\<lambda>p n f. (Some 1, 100, 0)),
      pcre2_match_data_create_from_pattern = (\<lambda>c. Some 2),
      pcre2_match_context_create = Some 3,
      pcre2_get_error_message = (\<lambda>e n. take (n - 1) ''no error''),
      pcre2_match = (\<lambda>c t n offset. if offset \<le> n then (1, offset, offset) else (- 33, 0, 0))\<rparr>"

definition rejecting_lib :: "nat pcre2_lib" where
  "rejecting_lib =
     \<lparr>pcre2_compile = (\<lambda>p n f. (None, 114, 3)),
      pcre2_match_data_create_from_pattern = (\<lambda>c. Some 2),
      pcre2_match_context_create = Some 3,
      pcre2_get_error_message = (\<lambda>e n. take (n - 1) ''missing closing parenthesis''),
      pcre2_match = (\<lambda>c t n offset. (- 1, 0, 0))\<rparr>"

text \<open>The span of a zero-width match at position \<open>i\<close>.\<close>

definition empty_span :: "nat \<Rightarrow> PcreMatch" where
  "empty_span i = \<lparr>start = i, end' = i, valid = 1\<rparr>"

section \<open>Properties of the growth and allocation helpers\<close>

lemma unat_max_word: "unat (- 1 :: 'a::len word) = 2 ^ LENGTH('a) - 1"
  by (simp add: unsigned_minus_1_eq_mask mask_eq_exp_minus_1)

text \<open>The division test of the source is exactly the overflow of the product.\<close>

lemma overflow_iff:
  fixes n s :: "'a::len word"
  assumes "n \<noteq> 0"
  shows "s > (- 1) div n \<longleftrightarrow> unat n * unat s \<ge> 2 ^ LENGTH('a)"
proof -
  have k: "0 < unat n" using assms by (simp add: unat_gt_0)
  have "s > (- 1) div n \<longleftrightarrow> (2 ^ LENGTH('a) - 1) div unat n < unat s"
    by (simp add: word_less_nat_alt unat_div unat_max_word)
  also have "\<dots> \<longleftrightarrow> 2 ^ LENGTH('a) - 1 < unat s * unat n"
    using k by (simp add: div_less_iff_less_mult)
  also have "\<dots> \<longleftrightarrow> unat n * unat s \<ge> 2 ^ LENGTH('a)"
  proof -
    have "(0::nat) < 2 ^ LENGTH('a)" by simp
    then show ?thesis unfolding mult.commute [of "unat s"] by arith
  qed
  finally show ?thesis .
qed

lemma overflow_iff0:
  fixes n s :: "'a::len word"
  shows "(n \<noteq> 0 \<and> s > (- 1) div n) \<longleftrightarrow> unat n * unat s \<ge> 2 ^ LENGTH('a)"
proof (cases "n = 0")
  case True
  then show ?thesis by simp
next
  case False
  then show ?thesis by (simp add: overflow_iff)
qed

lemma no_overflow_add:
  fixes n s :: "'a::len word"
  assumes "unat n + unat s < 2 ^ LENGTH('a)"
  shows "unat (n + s) = unat n + unat s"
  using assms by (simp add: unat_word_ariths)

lemma max_word_unat:
  fixes a b :: "'a::len word"
  shows "unat (if a < b then b else a) = max (unat a) (unat b)"
  by (auto simp: word_less_nat_alt max_def)

text \<open>
  Claim C9. \<^verbatim>\<open>reallocarray\<close> returns \<^verbatim>\<open>NULL\<close> with \<^verbatim>\<open>errno = ENOMEM\<close>, whatever
  \<^verbatim>\<open>realloc\<close> would do, exactly when the product of \<open>nmemb\<close> and \<open>size\<close> as natural
  numbers exceeds \<^verbatim>\<open>SIZE_MAX\<close>, which is what the test \<^verbatim>\<open>nmemb && size > SIZE_MAX / nmemb\<close>
  decides; otherwise it is \<^verbatim>\<open>realloc\<close> called with that exact product.
\<close>

theorem reallocarray_checked:
  fixes nmemb sz :: "'a::len word"
  shows "((nmemb \<noteq> 0 \<and> sz > SIZE_MAX div nmemb)
            \<longleftrightarrow> unat (SIZE_MAX :: 'a word) < unat nmemb * unat sz) \<and>
         reallocarray realloc_f p nmemb sz errno =
           (if unat (SIZE_MAX :: 'a word) < unat nmemb * unat sz then (None, ENOMEM)
            else realloc_f p (of_nat (unat nmemb * unat sz)) errno)"
proof -
  have m: "unat (SIZE_MAX :: 'a word) < unat nmemb * unat sz
             \<longleftrightarrow> 2 ^ LENGTH('a) \<le> unat nmemb * unat sz"
  proof -
    have "(0::nat) < 2 ^ LENGTH('a)" by simp
    then show ?thesis unfolding SIZE_MAX_def unat_max_word by arith
  qed
  have a: "(nmemb \<noteq> 0 \<and> sz > SIZE_MAX div nmemb)
             \<longleftrightarrow> unat (SIZE_MAX :: 'a word) < unat nmemb * unat sz"
    unfolding m by (simp add: SIZE_MAX_def overflow_iff0)
  have b: "(of_nat (unat nmemb * unat sz) :: 'a word) = nmemb * sz"
    by simp
  show ?thesis
    unfolding b using a by (simp add: reallocarray_def)
qed

theorem reallocarray_checked_witness:
  "reallocarray (\<lambda>p n e. (Some n, e)) None (2 ^ 63 :: 64 word) 2 0 = (None, ENOMEM) \<and>
   reallocarray (\<lambda>p n e. (Some n, e)) None (3 :: 64 word) 5 0 = (Some 15, 0)"
  using reallocarray_checked [of "2 ^ 63 :: 64 word" 2 "\<lambda>p n e. (Some n, e)" None 0]
    reallocarray_checked [of "3 :: 64 word" 5 "\<lambda>p n e. (Some n, e)" None 0]
  by (simp add: SIZE_MAX_def)

text \<open>
  Claim C8. When \<open>n + max n n_incr_min\<close> is representable, \<^verbatim>\<open>xpalloc\<close> stores as the
  new count: exactly \<open>n_max\<close> when a cap is given (\<open>n_max \<ge> 0\<close>) and that sum exceeds
  it; the sum itself otherwise, which is at least \<open>n + n_incr_min\<close>. The increment is
  \<open>n\<close>, raised to \<open>n_incr_min\<close> when smaller.
\<close>

theorem xpalloc_growth:
  fixes n n_incr_min n_max s :: "'a::len word"
  assumes rep: "unat n + max (unat n) (unat n_incr_min) < 2 ^ LENGTH('a)"
  shows "let new_n = fst (xpalloc heap pa n n_incr_min n_max s);
             capped = (0 \<le> sint n_max \<and> unat n_max < unat n + max (unat n) (unat n_incr_min))
         in (capped \<longrightarrow> new_n = n_max) \<and>
            (\<not> capped \<longrightarrow> unat new_n = unat n + max (unat n) (unat n_incr_min)
                          \<and> unat n + unat n_incr_min \<le> unat new_n)"
proof -
  define incr where "incr = (if n < n_incr_min then n_incr_min else n)"
  have i: "unat incr = max (unat n) (unat n_incr_min)"
    unfolding incr_def by (rule max_word_unat)
  have s: "unat (n + incr) = unat n + max (unat n) (unat n_incr_min)"
    using rep i by (simp add: no_overflow_add)
  have c: "n_max < n + incr \<longleftrightarrow> unat n_max < unat n + max (unat n) (unat n_incr_min)"
    by (simp add: word_less_nat_alt s)
  have f: "fst (xpalloc heap pa n n_incr_min n_max s) =
      (if 0 \<le> sint n_max \<and> n_max < n + incr then n + (n_max - n) else n + incr)"
    by (simp add: xpalloc_def Let_def incr_def)
  show ?thesis
    unfolding Let_def f c using s by auto
qed

theorem xpalloc_growth_witness:
  "unat (4 :: 64 word) + max (unat (4 :: 64 word)) (unat (1 :: 64 word)) < 2 ^ LENGTH(64) \<and>
   fst (xpalloc (\<lambda>_. True) None (4 :: 64 word) 1 6 8) = 6 \<and>
   unat (fst (xpalloc (\<lambda>_. True) None (4 :: 64 word) 1 (- 1) 8)) = 8"
  using xpalloc_growth [of "4 :: 64 word" 1 "\<lambda>_. True" None 6 8]
    xpalloc_growth [of "4 :: 64 word" 1 "\<lambda>_. True" None "- 1" 8]
  by (simp add: Let_def)

text \<open>
  Claim C2. The claim asks that a growth request whose byte size is not representable
  fails before any allocation. With an allocator that grants every request,
  \<^verbatim>\<open>xnmalloc(2^63, 2)\<close> returns a block of \<open>0\<close> bytes and \<^verbatim>\<open>xpalloc\<close> on \<open>2^62\<close>
  elements of size \<open>4\<close> stores the count \<open>2^63\<close> and returns a block of \<open>0\<close> bytes:
  the product wraps and the allocation is made. \<^verbatim>\<open>xreallocarray(p, 2^63, 2)\<close>, which
  has the check, ends the process instead.
\<close>

theorem xnmalloc_xpalloc_wrap:
  "xnmalloc (\<lambda>_. True) (2 ^ 63 :: 64 word) 2 = Returned (Some 0) \<and>
   xpalloc (\<lambda>_. True) None (2 ^ 62 :: 64 word) 1 (- 1) 4 = (2 ^ 63, Returned (Some 0)) \<and>
   xreallocarray (\<lambda>_. True) None (2 ^ 63 :: 64 word) 2 = Aborted"
  by (simp add: xnmalloc_def xmalloc_def malloc_def xpalloc_def xrealloc_def realloc_def
      xreallocarray_def xalloc_die_def)

section \<open>Properties of the literal/regex backend\<close>

text \<open>
  On a hit the wrapper hands the engine's pair on unchanged: the returned length is the
  engine's \<^verbatim>\<open>match_size\<close> and \<^verbatim>\<open>*match_start\<close> the engine's result.
\<close>

lemma gnu_grep_execute_passes_through:
  assumes "compiled c = Some h" and "0 < text_len"
    and "(if is_fixed c then Fexecute E else EGexecute E) (s\<lparr>error_occurred := 0\<rparr>) h t text_len
           = Ret (result, match_size)"
    and "0 \<le> result"
  shows "observed (gnu_grep_execute E (Some c) (Some t) text_len (Some m) s)
           = Returned (match_size, Some result)"
  using assms by (auto simp: gnu_grep_execute_def Let_def split: if_splits)

text \<open>
  Claim C1. The claim asks that the reported start and length are the boundaries of the
  match inside the line, never the whole line. For the literal \<open>cat\<close> and the two-line
  text \<open>one\<close>, \<open>the cat sat\<close> the match is at offset 8 with length 3; with a
  line-oriented engine the wrapper reports offset 4 and length 12, the whole second line
  with its newline.
\<close>

theorem gnu_grep_execute_reports_whole_line:
  "observed (gnu_grep_execute line_engine (Some \<lparr>compiled = Some ''cat'', is_fixed = True\<rparr>)
       (Some (''one'' @ [CHR 0x0A] @ ''the cat sat'' @ [CHR 0x0A])) 16 (Some 0) initial_state)
     = Returned (12, Some 4)"
  by (simp add: gnu_grep_execute_def line_engine_def Let_def)

text \<open>
  Claim C3. The claim asks that a fatal condition reported by the engine comes back to the
  caller as a null handle or a negative result. With an engine that reports a fatal
  condition, both compile functions and the execute function end the process.
\<close>

theorem engine_fatal_aborts:
  "gnu_grep_compile_fixed fatal_engine True True ''a(b'' 3 False initial_state = Aborted \<and>
   gnu_grep_compile_regex fatal_engine True ''a(b'' 3 False True initial_state = Aborted \<and>
   gnu_grep_execute fatal_engine (Some \<lparr>compiled = Some 1, is_fixed = False\<rparr>) (Some ''abc'') 3
      (Some 0) initial_state = Aborted"
  by (simp add: gnu_grep_compile_fixed_def gnu_grep_compile_regex_def gnu_grep_execute_def
      fatal_engine_def xalloc_die_def Let_def)

text \<open>
  Claim C7. An execute call with a null context, a context without a compiled pattern, a
  null text or a length that is not positive returns \<open>-2\<close> and leaves the out-parameter
  and the state as they were, whatever the engine is (so the engine has no part in the
  result); \<open>-2\<close> is not the no-match result \<open>-1\<close>.
\<close>

theorem gnu_grep_execute_rejects_invalid_input:
  assumes "ctx = None \<or> (\<exists>c. ctx = Some c \<and> compiled c = None) \<or> text = None \<or> text_len \<le> 0"
  shows "gnu_grep_execute E ctx text text_len match_start s = Returned (- 2, match_start, s) \<and>
         gnu_grep_execute E' ctx text text_len match_start s = Returned (- 2, match_start, s) \<and>
         observed (gnu_grep_execute E ctx text text_len match_start s) \<noteq> Returned (- 1, match_start)"
  using assms by (auto simp: gnu_grep_execute_def)

theorem gnu_grep_execute_rejects_invalid_input_witness:
  "gnu_grep_execute fatal_engine (Some \<lparr>compiled = Some 1, is_fixed = True\<rparr>) (Some []) 0 (Some 7)
      initial_state = Returned (- 2, Some 7, initial_state)"
  using gnu_grep_execute_rejects_invalid_input
    [of "Some \<lparr>compiled = Some 1, is_fixed = True\<rparr>" "Some []" 0 fatal_engine "Some 7" initial_state]
  by simp

subsection \<open>The error flag\<close>

lemma compile_error_occurred:
  assumes "error_occurred s = 0" and "compile E r s = Returned (c, s')"
  shows "error_occurred s' = 0"
  using assms
  by (cases r)
     (auto simp: gnu_grep_compile_fixed_def gnu_grep_compile_regex_def gnu_grep_init_def
        xalloc_die_def Let_def split: if_splits engine_result.splits)

lemma execute_error_occurred:
  assumes "error_occurred s = 0"
    and "gnu_grep_execute E ctx t text_len m s = Returned (r, m', s')"
  shows "error_occurred s' = 0"
  using assms
  by (auto simp: gnu_grep_execute_def xalloc_die_def Let_def
      split: if_splits engine_result.splits prod.splits)

lemma call_state_error_occurred:
  assumes "error_occurred s = 0" and "call_state E c s = Returned s'"
  shows "error_occurred s' = 0"
proof (cases c)
  case (Compile r)
  with assms show ?thesis
    by (auto split: outcome.splits dest: compile_error_occurred)
next
  case (Execute ctx t text_len m)
  with assms show ?thesis
    by (auto split: outcome.splits dest: execute_error_occurred)
next
  case (Free ctx)
  with assms show ?thesis by (simp add: gnu_grep_free_def)
qed

lemma run_error_occurred:
  "error_occurred s = 0 \<Longrightarrow> run E calls s = Returned s' \<Longrightarrow> error_occurred s' = 0"
proof (induction calls arbitrary: s)
  case Nil
  then show ?case by simp
next
  case (Cons c cs)
  from Cons.prems(2) obtain s1 where 1: "call_state E c s = Returned s1"
    and 2: "run E cs s1 = Returned s'"
    by (auto split: outcome.splits)
  from call_state_error_occurred [OF Cons.prems(1) 1] have "error_occurred s1 = 0" .
  from Cons.IH [OF this 2] show ?case .
qed

text \<open>
  Claim C10. The claim says that \<^verbatim>\<open>error_occurred\<close> is reset to zero at the start of
  every compile and execute call. \<^verbatim>\<open>gnu_grep_compile_fixed\<close> returns before its
  assignment when the copy of the pattern cannot be allocated, and \<^verbatim>\<open>gnu_grep_execute\<close>
  returns before its assignment when it rejects its arguments. Started with the flag at
  \<open>1\<close> (a value the wrapper never stores, taken here to make the missing assignment
  visible), both calls return with the flag still at \<open>1\<close>.
\<close>

theorem early_return_skips_reset:
  "error_occurred (the (final_state
      (gnu_grep_compile_fixed line_engine False True ''cat'' 3 False
         (initial_state\<lparr>error_occurred := 1\<rparr>)))) = 1 \<and>
   gnu_grep_execute line_engine None None 0 None (initial_state\<lparr>error_occurred := 1\<rparr>)
     = Returned (- 2, None, initial_state\<lparr>error_occurred := 1\<rparr>)"
  by (simp add: gnu_grep_compile_fixed_def gnu_grep_execute_def gnu_grep_init_def
      initial_state_def Let_def)

text \<open>
  Claim C10, amended. After every sequence of compile, execute and free calls that starts
  in the initial state and returns, \<^verbatim>\<open>error_occurred\<close> is \<open>0\<close> and
  \<^verbatim>\<open>gnu_grep_get_error\<close> returns \<^verbatim>\<open>NULL\<close>, for every engine: no call stores a
  non-zero value. Whatever the flag was before, it is \<open>0\<close> after every
  \<^verbatim>\<open>gnu_grep_compile_regex\<close> that returns, after every \<^verbatim>\<open>gnu_grep_compile_fixed\<close> that
  returns having allocated the copy of the pattern, and after every \<^verbatim>\<open>gnu_grep_execute\<close>
  that returns having accepted its arguments; the two early returns leave it as it was.
\<close>

theorem error_flag_reset_and_never_set:
  "(run E calls initial_state = Returned s \<longrightarrow>
      gnu_grep_get_error s = None \<and> error_occurred s = 0) \<and>
   (gnu_grep_compile_regex E ctx_ok p n ci ext s0 = Returned (r1, s1) \<longrightarrow>
      error_occurred s1 = 0) \<and>
   (gnu_grep_compile_fixed E copy_ok ctx_ok p n ci s0 = Returned (r2, s2) \<longrightarrow>
      error_occurred s2 = (if copy_ok then 0 else error_occurred s0)) \<and>
   (gnu_grep_execute E ctx t len m s0 = Returned (v, m', s3) \<longrightarrow>
      error_occurred s3 =
        (if ctx = None \<or> compiled (the ctx) = None \<or> t = None \<or> len \<le> 0
         then error_occurred s0 else 0))"
proof (intro conjI impI)
  assume a: "run E calls initial_state = Returned s"
  have "error_occurred initial_state = 0" by (simp add: initial_state_def)
  from run_error_occurred [OF this a] show "gnu_grep_get_error s = None"
    by (simp add: gnu_grep_get_error_def)
  have "error_occurred initial_state = 0" by (simp add: initial_state_def)
  from run_error_occurred [OF this a] show "error_occurred s = 0" .
next
  assume "gnu_grep_compile_regex E ctx_ok p n ci ext s0 = Returned (r1, s1)"
  then show "error_occurred s1 = 0"
    by (auto simp: gnu_grep_compile_regex_def xalloc_die_def Let_def
        split: if_splits engine_result.splits)
next
  assume "gnu_grep_compile_fixed E copy_ok ctx_ok p n ci s0 = Returned (r2, s2)"
  then show "error_occurred s2 = (if copy_ok then 0 else error_occurred s0)"
    by (auto simp: gnu_grep_compile_fixed_def gnu_grep_init_def xalloc_die_def Let_def
        split: if_splits engine_result.splits)
next
  assume "gnu_grep_execute E ctx t len m s0 = Returned (v, m', s3)"
  then show "error_occurred s3 =
        (if ctx = None \<or> compiled (the ctx) = None \<or> t = None \<or> len \<le> 0
         then error_occurred s0 else 0)"
    by (auto simp: gnu_grep_execute_def xalloc_die_def Let_def
        split: if_splits engine_result.splits prod.splits)
qed

theorem error_flag_reset_and_never_set_witness:
  "map_outcome gnu_grep_get_error
     (run line_engine
        [Compile (Regex True ''a(b'' 3 False True),
         Compile (Fixed True True ''cat'' 3 True),
         Execute (Some \<lparr>compiled = Some ''cat'', is_fixed = True\<rparr>) (Some ''the cat sat'') 11 (Some 0),
         Execute None None 0 None,
         Free None]
        initial_state) = Returned None \<and>
   map_option error_occurred (final_state
      (gnu_grep_compile_regex line_engine True ''dog'' 3 False False
         (initial_state\<lparr>error_occurred := 1\<rparr>))) = Some 0 \<and>
   map_option error_occurred (final_state
      (gnu_grep_compile_fixed line_engine True True ''cat'' 3 False
         (initial_state\<lparr>error_occurred := 1\<rparr>))) = Some 0 \<and>
   map_outcome (error_occurred \<circ> snd \<circ> snd)
      (gnu_grep_execute line_engine (Some \<lparr>compiled = Some ''cat'', is_fixed = True\<rparr>)
         (Some ''the cat sat'') 11 (Some 0) (initial_state\<lparr>error_occurred := 1\<rparr>)) = Returned 0"
proof -
  let ?calls = "[Compile (Regex True ''a(b'' 3 False True),
         Compile (Fixed True True ''cat'' 3 True),
         Execute (Some \<lparr>compiled = Some ''cat'', is_fixed = True\<rparr>) (Some ''the cat sat'') 11 (Some 0),
         Execute None None 0 None,
         Free None]"
  let ?s = "initial_state\<lparr>error_occurred := 1\<rparr>"
  have 1: "map_outcome gnu_grep_get_error (run line_engine ?calls initial_state) = Returned None"
  proof (cases "run line_engine ?calls initial_state")
    case (Returned s)
    from error_flag_reset_and_never_set [where E = line_engine and calls = ?calls and s = s]
      Returned
    have "gnu_grep_get_error s = None" by blast
    with Returned show ?thesis by simp
  next
    case Aborted
    then show ?thesis
      by (simp add: gnu_grep_compile_fixed_def gnu_grep_compile_regex_def gnu_grep_execute_def
        line_engine_def Let_def gnu_grep_free_def regex_syntax_def)
  qed
  have 2: "map_option error_occurred (final_state
      (gnu_grep_compile_regex line_engine True ''dog'' 3 False False ?s)) = Some 0"
  proof (cases "gnu_grep_compile_regex line_engine True ''dog'' 3 False False ?s")
    case (Returned x)
    obtain r s1 where x: "x = (r, s1)" by (cases x)
    from error_flag_reset_and_never_set [where E = line_engine and ctx_ok = True
        and p = "''dog''" and n = 3 and ci = False and ext = False and ?s0.0 = ?s
        and ?r1.0 = r and ?s1.0 = s1] Returned x
    have "error_occurred s1 = 0" by blast
    with Returned x show ?thesis by simp
  next
    case Aborted
    then show ?thesis
      by (simp add: gnu_grep_compile_regex_def line_engine_def Let_def)
  qed
  have 3: "map_option error_occurred (final_state
      (gnu_grep_compile_fixed line_engine True True ''cat'' 3 False ?s)) = Some 0"
  proof (cases "gnu_grep_compile_fixed line_engine True True ''cat'' 3 False ?s")
    case (Returned x)
    obtain r s2 where x: "x = (r, s2)" by (cases x)
    from error_flag_reset_and_never_set [where E = line_engine and ctx_ok = True
        and copy_ok = True and p = "''cat''" and n = 3 and ci = False and ?s0.0 = ?s
        and ?r2.0 = r and ?s2.0 = s2] Returned x
    have "error_occurred s2 = (if True then 0 else error_occurred ?s)" by blast
    with Returned x show ?thesis by simp
  next
    case Aborted
    then show ?thesis
      by (simp add: gnu_grep_compile_fixed_def line_engine_def Let_def)
  qed
  have 4: "map_outcome (error_occurred \<circ> snd \<circ> snd)
      (gnu_grep_execute line_engine (Some \<lparr>compiled = Some ''cat'', is_fixed = True\<rparr>)
         (Some ''the cat sat'') 11 (Some 0) ?s) = Returned 0"
  proof (cases "gnu_grep_execute line_engine (Some \<lparr>compiled = Some ''cat'', is_fixed = True\<rparr>)
         (Some ''the cat sat'') 11 (Some 0) ?s")
    case (Returned x)
    obtain v m' s3 where x: "x = (v, m', s3)" by (cases x)
    from error_flag_reset_and_never_set [where E = line_engine
        and ctx = "Some \<lparr>compiled = Some ''cat'', is_fixed = True\<rparr>"
        and t = "Some ''the cat sat''" and len = 11 and m = "Some 0" and ?s0.0 = ?s
        and v = v and m' = m' and ?s3.0 = s3] Returned x
    have "error_occurred s3 = 0" by simp
    with Returned x show ?thesis by simp
  next
    case Aborted
    then show ?thesis
      by (simp add: gnu_grep_execute_def line_engine_def Let_def)
  qed
  from 1 2 3 4 show ?thesis by blast
qed

subsection \<open>Two compiled patterns\<close>

lemma compile_success_state:
  assumes "compile E r s0 = Returned (Some ctx, s1)"
  shows "initialized s1 \<and> \<not> match_words s1 \<and> \<not> match_lines s1 \<and> error_occurred s1 = 0"
  using assms
  by (cases r)
     (auto simp: gnu_grep_compile_fixed_def gnu_grep_compile_regex_def gnu_grep_init_def
        xalloc_die_def Let_def split: if_splits engine_result.splits)

lemma compile_after_success:
  assumes "initialized s1" "\<not> match_words s1" "\<not> match_lines s1" "error_occurred s1 = 0"
    and "compile E r s1 = Returned (res, s2)"
  shows "s2 = s1\<lparr>match_icase := request_icase r\<rparr>"
  using assms
  by (cases r)
     (auto simp: gnu_grep_compile_fixed_def gnu_grep_compile_regex_def gnu_grep_init_def
        xalloc_die_def Let_def split: if_splits engine_result.splits)

lemma execute_icase_independent:
  assumes "\<forall>s b h t n. Fexecute E (s\<lparr>match_icase := b\<rparr>) h t n = Fexecute E s h t n"
    and "\<forall>s b h t n. EGexecute E (s\<lparr>match_icase := b\<rparr>) h t n = EGexecute E s h t n"
  shows "observed (gnu_grep_execute E ctx t n m (s\<lparr>match_icase := b\<rparr>)) =
         observed (gnu_grep_execute E ctx t n m s)"
proof -
  have u: "s\<lparr>match_icase := b, error_occurred := 0\<rparr> = (s\<lparr>error_occurred := 0\<rparr>)\<lparr>match_icase := b\<rparr>"
    by simp
  have f: "Fexecute E (s\<lparr>match_icase := b, error_occurred := 0\<rparr>) h t n =
           Fexecute E (s\<lparr>error_occurred := 0\<rparr>) h t n" for h t n
    unfolding u using assms(1) by blast
  have g: "EGexecute E (s\<lparr>match_icase := b, error_occurred := 0\<rparr>) h t n =
           EGexecute E (s\<lparr>error_occurred := 0\<rparr>) h t n" for h t n
    unfolding u using assms(2) by blast
  show ?thesis
    by (simp add: gnu_grep_execute_def Let_def f g xalloc_die_def
        split: engine_result.splits prod.splits)
qed

text \<open>
  Claim C6. The claim says that two compiled patterns share no mutable state. Every
  compile call writes the global \<^verbatim>\<open>match_icase\<close>: after a case-sensitive compile of
  \<open>cat\<close> the flag is false, and after a following case-insensitive compile of \<open>dog\<close>
  it is true.
\<close>

theorem second_compile_overwrites_match_icase:
  "match_icase (the (final_state (compile line_engine (Fixed True True ''cat'' 3 False) initial_state)))
     = False \<and>
   match_icase (the (final_state (compile line_engine (Regex True ''dog'' 3 True False)
      (the (final_state (compile line_engine (Fixed True True ''cat'' 3 False) initial_state))))))
     = True"
  by (simp add: gnu_grep_compile_fixed_def gnu_grep_compile_regex_def line_engine_def
      gnu_grep_init_def initial_state_def Let_def)

text \<open>
  Claim C6, amended. After a first compile that returned a context, a second compile that
  returns changes the state in \<^verbatim>\<open>match_icase\<close> only, which it sets to its own flag; the
  first context is a value of its own and is not touched. Executing the first pattern
  afterwards gives the caller the same result as before, provided the engine's execute
  entry points do not depend on \<^verbatim>\<open>match_icase\<close>.
\<close>

theorem second_compile_changes_only_match_icase:
  assumes c1: "compile E r1 s0 = Returned (Some ctx1, s1)"
    and c2: "compile E r2 s1 = Returned (res2, s2)"
  shows "s2 = s1\<lparr>match_icase := request_icase r2\<rparr> \<and>
         ((\<forall>s b h t n. Fexecute E (s\<lparr>match_icase := b\<rparr>) h t n = Fexecute E s h t n) \<and>
          (\<forall>s b h t n. EGexecute E (s\<lparr>match_icase := b\<rparr>) h t n = EGexecute E s h t n) \<longrightarrow>
          observed (gnu_grep_execute E (Some ctx1) t n m s2) =
          observed (gnu_grep_execute E (Some ctx1) t n m s1))"
proof -
  from compile_success_state [OF c1]
  have s2: "s2 = s1\<lparr>match_icase := request_icase r2\<rparr>"
    by (intro compile_after_success [OF _ _ _ _ c2]) simp_all
  show ?thesis
    unfolding s2 by (simp add: execute_icase_independent)
qed

theorem second_compile_changes_only_match_icase_witness:
  "observed (gnu_grep_execute line_engine (Some \<lparr>compiled = Some ''cat'', is_fixed = True\<rparr>)
       (Some ''the cat sat'') 11 (Some 0) ((compile_globals initial_state False)\<lparr>match_icase := True\<rparr>))
   = observed (gnu_grep_execute line_engine (Some \<lparr>compiled = Some ''cat'', is_fixed = True\<rparr>)
       (Some ''the cat sat'') 11 (Some 0) (compile_globals initial_state False))"
proof -
  have c1: "compile line_engine (Fixed True True ''cat'' 3 False) initial_state =
      Returned (Some \<lparr>compiled = Some ''cat'', is_fixed = True\<rparr>, compile_globals initial_state False)"
    by (simp add: gnu_grep_compile_fixed_def line_engine_def compile_globals_def Let_def)
  have c2: "compile line_engine (Regex True ''dog'' 3 True False) (compile_globals initial_state False) =
      Returned (Some \<lparr>compiled = Some ''dog'', is_fixed = False\<rparr>,
                (compile_globals initial_state False)\<lparr>match_icase := True\<rparr>)"
    by (simp add: gnu_grep_compile_regex_def line_engine_def compile_globals_def gnu_grep_init_def
        Let_def)
  have i1: "\<forall>s b h t n. Fexecute line_engine (s\<lparr>match_icase := b\<rparr>) h t n = Fexecute line_engine s h t n"
    by (simp add: line_engine_def)
  have i2: "\<forall>s b h t n. EGexecute line_engine (s\<lparr>match_icase := b\<rparr>) h t n = EGexecute line_engine s h t n"
    by (simp add: line_engine_def)
  from second_compile_changes_only_match_icase [OF c1 c2] i1 i2 show ?thesis
    by blast
qed

text \<open>
  The hypothesis on the engine cannot be dropped. With an engine that reads
  \<^verbatim>\<open>match_icase\<close> at search time, the pattern \<open>cat\<close> compiled case-sensitively does not
  match \<open>the Cat sat\<close>, and matches it once a second compile has set the flag.
\<close>

lemma first_pattern_follows_match_icase:
  "observed (gnu_grep_execute folding_engine (Some \<lparr>compiled = Some ''cat'', is_fixed = True\<rparr>)
       (Some ''the Cat sat'') 11 (Some 0) (compile_globals initial_state False))
     = Returned (- 1, Some 0) \<and>
   observed (gnu_grep_execute folding_engine (Some \<lparr>compiled = Some ''cat'', is_fixed = True\<rparr>)
       (Some ''the Cat sat'') 11 (Some 0)
       ((compile_globals initial_state False)\<lparr>match_icase := True\<rparr>))
     = Returned (11, Some 0)"
  by code_simp

section \<open>Properties of compilation failure\<close>

text \<open>
  Claim C5. The claim says that every failed compile gives the caller a null handle. For
  a pattern that PCRE2 rejects, \<^verbatim>\<open>pcre2_compile_pattern\<close> returns a context that is not
  null: it holds no code, and the error code and offset.
\<close>

theorem pcre2_syntax_failure_returns_context:
  "pcre2_compile_pattern rejecting_lib True ''a(b'' 3 0 0 =
     Some \<lparr>code = None, match_data = None, match_context = None, error_code = 114, error_offset = 3\<rparr>"
  by (simp add: pcre2_compile_pattern_def rejecting_lib_def Let_def)

text \<open>
  Claim C5, amended. The literal/regex compile functions return a null handle when an
  allocation of the wrapper fails or the engine returns \<^verbatim>\<open>NULL\<close>.
  \<^verbatim>\<open>pcre2_compile_pattern\<close> returns a null handle when an allocation fails (the context,
  the match data or the match context). When PCRE2 rejects the pattern it returns a
  context without code, which \<^verbatim>\<open>pcre2_is_valid\<close> reports as invalid and from which the
  caller gets the error offset and, with a buffer of positive length, the message of the
  error code.
\<close>

theorem compile_failure_results:
  fixes E :: "'h engine" and L :: "'c pcre2_lib"
  shows
  "(\<not> copy_ok \<or> \<not> ctx_ok \<or>
      Fcompile E (compile_globals s ci) (take (nat n) p @ [CHR 0x0A]) (n + 1) 0 False = Ret None
     \<longrightarrow> map_outcome fst (gnu_grep_compile_fixed E copy_ok ctx_ok p n ci s) = Returned None) \<and>
   (\<not> ctx_ok \<or> GEAcompile E (compile_globals s ci) p n (regex_syntax E ext ci) False = Ret None
     \<longrightarrow> map_outcome fst (gnu_grep_compile_regex E ctx_ok p n ci ext s) = Returned None) \<and>
   (\<not> ctx_ok' \<longrightarrow> pcre2_compile_pattern L ctx_ok' q m pci pml = None) \<and>
   (ctx_ok' \<and> pcre2_compile L q m (compile_flags pci pml) = (Some c, ec, eo) \<and>
      (pcre2_match_data_create_from_pattern L c = None \<or> pcre2_match_context_create L = None)
     \<longrightarrow> pcre2_compile_pattern L ctx_ok' q m pci pml = None) \<and>
   (ctx_ok' \<and> pcre2_compile L q m (compile_flags pci pml) = (None, ec, eo)
     \<longrightarrow> (let r = pcre2_compile_pattern L ctx_ok' q m pci pml in
           r = Some \<lparr>code = None, match_data = None, match_context = None,
                      error_code = ec, error_offset = eo\<rparr> \<and>
           pcre2_is_valid r = 0 \<and>
           pcre2_get_error_offset r = eo \<and>
           (0 < len \<longrightarrow> pcre2_wrapper_get_error_message L r (Some b) len =
              Some (pcre2_get_error_message L ec len))))"
proof (intro conjI impI)
  assume "\<not> copy_ok \<or> \<not> ctx_ok \<or>
      Fcompile E (compile_globals s ci) (take (nat n) p @ [CHR 0x0A]) (n + 1) 0 False = Ret None"
  then show "map_outcome fst (gnu_grep_compile_fixed E copy_ok ctx_ok p n ci s) = Returned None"
    by (auto simp: gnu_grep_compile_fixed_def compile_globals_def Let_def)
next
  assume "\<not> ctx_ok \<or> GEAcompile E (compile_globals s ci) p n (regex_syntax E ext ci) False = Ret None"
  then show "map_outcome fst (gnu_grep_compile_regex E ctx_ok p n ci ext s) = Returned None"
    by (auto simp: gnu_grep_compile_regex_def compile_globals_def Let_def)
next
  assume "\<not> ctx_ok'"
  then show "pcre2_compile_pattern L ctx_ok' q m pci pml = None"
    by (simp add: pcre2_compile_pattern_def)
next
  assume "ctx_ok' \<and> pcre2_compile L q m (compile_flags pci pml) = (Some c, ec, eo) \<and>
      (pcre2_match_data_create_from_pattern L c = None \<or> pcre2_match_context_create L = None)"
  then show "pcre2_compile_pattern L ctx_ok' q m pci pml = None"
    by (auto simp: pcre2_compile_pattern_def Let_def)
next
  assume a: "ctx_ok' \<and> pcre2_compile L q m (compile_flags pci pml) = (None, ec, eo)"
  then have c: "pcre2_compile_pattern L ctx_ok' q m pci pml =
      Some \<lparr>code = None, match_data = None, match_context = None, error_code = ec, error_offset = eo\<rparr>"
    by (simp add: pcre2_compile_pattern_def Let_def)
  show "let r = pcre2_compile_pattern L ctx_ok' q m pci pml in
           r = Some \<lparr>code = None, match_data = None, match_context = None,
                      error_code = ec, error_offset = eo\<rparr> \<and>
           pcre2_is_valid r = 0 \<and>
           pcre2_get_error_offset r = eo \<and>
           (0 < len \<longrightarrow> pcre2_wrapper_get_error_message L r (Some b) len =
              Some (pcre2_get_error_message L ec len))"
    unfolding c Let_def
    by (simp add: pcre2_is_valid_def pcre2_get_error_offset_def pcre2_wrapper_get_error_message_def)
qed

theorem compile_failure_results_witness:
  "map_outcome fst (gnu_grep_compile_fixed null_engine True True ''cat'' 3 False initial_state)
     = Returned None \<and>
   map_outcome fst (gnu_grep_compile_regex null_engine True ''a(b'' 3 False True initial_state)
     = Returned None \<and>
   pcre2_compile_pattern rejecting_lib False ''a(b'' 3 0 0 = None \<and>
   pcre2_is_valid (pcre2_compile_pattern rejecting_lib True ''a(b'' 3 0 0) = 0 \<and>
   pcre2_get_error_offset (pcre2_compile_pattern rejecting_lib True ''a(b'' 3 0 0) = 3 \<and>
   pcre2_wrapper_get_error_message rejecting_lib
     (pcre2_compile_pattern rejecting_lib True ''a(b'' 3 0 0) (Some []) 64
     = Some ''missing closing parenthesis''"
proof -
  have f: "Fcompile null_engine (compile_globals initial_state False)
             (take (nat 3) ''cat'' @ [CHR 0x0A]) (3 + 1) 0 False = Ret None"
    by (simp add: null_engine_def)
  have g: "GEAcompile null_engine (compile_globals initial_state False) ''a(b'' 3
             (regex_syntax null_engine True False) False = Ret None"
    by (simp add: null_engine_def)
  have r: "pcre2_compile rejecting_lib ''a(b'' 3 (compile_flags 0 0) = (None, 114, 3)"
    by (simp add: rejecting_lib_def)
  note t1 = compile_failure_results [where copy_ok = True and ctx_ok = True and E = null_engine
      and s = initial_state and ci = False and n = 3 and p = "''cat''" and ext = True
      and ctx_ok' = False and L = rejecting_lib and q = "''a(b''" and m = 3 and pci = 0
      and pml = 0 and ec = 114 and eo = 3 and len = 64 and b = "[]"]
  note t2 = compile_failure_results [where copy_ok = True and ctx_ok = True and E = null_engine
      and s = initial_state and ci = False and n = 3 and p = "''a(b''" and ext = True
      and ctx_ok' = True and L = rejecting_lib and q = "''a(b''" and m = 3 and pci = 0
      and pml = 0 and ec = 114 and eo = 3 and len = 64 and b = "[]"]
  from t1 f have 1: "map_outcome fst
      (gnu_grep_compile_fixed null_engine True True ''cat'' 3 False initial_state) = Returned None"
    by blast
  from t2 g have 2: "map_outcome fst
      (gnu_grep_compile_regex null_engine True ''a(b'' 3 False True initial_state) = Returned None"
    by blast
  from t1 have 3: "pcre2_compile_pattern rejecting_lib False ''a(b'' 3 0 0 = None"
    by blast
  from t2 r have 4: "let r = pcre2_compile_pattern rejecting_lib True ''a(b'' 3 0 0 in
       r = Some \<lparr>code = None, match_data = None, match_context = None,
                  error_code = 114, error_offset = 3\<rparr> \<and>
       pcre2_is_valid r = 0 \<and> pcre2_get_error_offset r = 3 \<and>
       ((0::nat) < 64 \<longrightarrow> pcre2_wrapper_get_error_message rejecting_lib r (Some []) 64 =
          Some (pcre2_get_error_message rejecting_lib 114 64))"
    by blast
  have 5: "pcre2_get_error_message rejecting_lib 114 64 = ''missing closing parenthesis''"
    by (simp add: rejecting_lib_def)
  have 6: "(0::nat) < 64" by simp
  from 1 2 3 4 6 show ?thesis
    unfolding Let_def 5 by blast
qed

section \<open>Properties of find-all\<close>

text \<open>Below \<open>2^31\<close> the counter holds the number of matches and the cast keeps it.\<close>

lemma sint_count:
  assumes "i < 2 ^ 31"
  shows "sint (of_nat i :: 32 word) = int i"
proof -
  have b: "- (2 ^ 31) \<le> int i" "int i < 2 ^ 31"
    using assms by simp_all
  have "signed_take_bit 31 (int i) = int i"
    using b by (simp add: signed_take_bit_int_eq_self)
  then show ?thesis
    by (simp add: signed_of_nat)
qed

lemma size_t_of_count:
  assumes "i < 2 ^ 31"
  shows "size_t_of_int (of_nat i) = i"
proof -
  have "int i mod 2 ^ 64 = int i"
    using assms by simp
  then show ?thesis
    using assms by (simp add: size_t_of_int_def sint_count)
qed

lemma find_all_loop_empty_matches:
  assumes every: "\<forall>offset<text_len. \<exists>rc\<ge>0. pcre2_match L c t text_len offset = (rc, offset, offset)"
    and small: "text_len < 2 ^ 31"
  shows "i \<le> min text_len max_results \<Longrightarrow>
         find_all_loop L c t text_len max_results i (of_nat i) rs =
           Some (int (min text_len max_results),
                 rs @ map empty_span [i..<min text_len max_results])"
proof (induction "min text_len max_results - i" arbitrary: i rs)
  case 0
  then have i: "min text_len max_results = i" by simp
  then have "i < 2 ^ 31" using small by simp
  note cnt = size_t_of_count [OF this] sint_count [OF this]
  have stop: "\<not> (i < text_len \<and> i < max_results)"
    using i by auto
  have "find_all_loop L c t text_len max_results i (of_nat i) rs = Some (int i, rs)"
    by (subst find_all_loop.simps) (simp only: cnt stop if_False)
  then show ?case unfolding i by simp
next
  case (Suc k)
  then have lt: "i < text_len" "i < max_results" by auto
  then have "i < 2 ^ 31" using small by simp
  note cnt = size_t_of_count [OF this]
  from every lt obtain rc where rc: "0 \<le> rc" "pcre2_match L c t text_len i = (rc, i, i)"
    by blast
  have k: "k = min text_len max_results - Suc i" using Suc.hyps(2) by simp
  have le: "Suc i \<le> min text_len max_results" using lt by simp
  have go: "i < text_len \<and> size_t_of_int (of_nat i) < max_results"
    unfolding cnt using lt by simp
  have step: "find_all_loop L c t text_len max_results i (of_nat i) rs =
      find_all_loop L c t text_len max_results (Suc i) (of_nat (Suc i)) (rs @ [empty_span i])"
    using rc by (subst find_all_loop.simps) (simp add: go empty_span_def add.commute)
  have upt: "[i..<min text_len max_results] = i # [Suc i..<min text_len max_results]"
    using le by (simp add: upt_conv_Cons)
  show ?case
    unfolding step Suc.hyps(1) [OF k le] upt by simp
qed

text \<open>
  Claim C4. The claim says that on a text of length \<open>L\<close> a pattern matching the empty
  string everywhere gives \<open>L + 1\<close> spans. On \<open>abc\<close> with room for four results
  \<^verbatim>\<open>pcre2_find_all\<close> returns three spans, at 0, 1 and 2: the loop stops when the
  offset reaches the length of the text, so the empty match at the end is not looked for.
\<close>

theorem pcre2_find_all_misses_end_of_text:
  "pcre2_find_all empty_pattern_lib
     (pcre2_compile_pattern empty_pattern_lib True [] 0 0 0) (Some ''abc'') 3 True 4 =
   Some (3, [\<lparr>start = 0, end' = 0, valid = 1\<rparr>, \<lparr>start = 1, end' = 1, valid = 1\<rparr>,
             \<lparr>start = 2, end' = 2, valid = 1\<rparr>])"
  by (simp add: pcre2_find_all_def pcre2_compile_pattern_def empty_pattern_lib_def
      find_all_loop.simps size_t_of_int_def Let_def)

text \<open>
  Claim C4, amended. When the pattern has the zero-width match \<open>(offset, offset)\<close> at
  every offset before the end of the text, the length \<open>L\<close> of the text is below
  \<open>2^31\<close> (so that the \<^verbatim>\<open>int\<close> counter holds it) and \<open>max_results\<close> is at least
  \<open>L\<close>, \<^verbatim>\<open>pcre2_find_all\<close> terminates and returns exactly \<open>L\<close> spans, the
  zero-width spans at the positions \<open>0\<close> to \<open>L - 1\<close> in order: after each zero-width
  match the search resumes one byte further.
\<close>

theorem pcre2_find_all_empty_matches:
  assumes "\<forall>offset<text_len. \<exists>rc\<ge>0. pcre2_match L c t text_len offset = (rc, offset, offset)"
    and "code ctx = Some c"
    and "text_len \<le> max_results"
    and "text_len < 2 ^ 31"
  shows "pcre2_find_all L (Some ctx) (Some t) text_len True max_results =
           Some (int text_len, map (\<lambda>i. \<lparr>start = i, end' = i, valid = 1\<rparr>) [0..<text_len])"
proof -
  have e: "empty_span = (\<lambda>i. \<lparr>start = i, end' = i, valid = 1\<rparr>)"
    by (rule ext) (simp add: empty_span_def)
  have m: "min text_len max_results = text_len"
    using assms(3) by simp
  show ?thesis
    using find_all_loop_empty_matches [OF assms(1) assms(4), of 0 max_results "[]"] assms(2)
    unfolding m by (simp add: pcre2_find_all_def e)
qed

theorem pcre2_find_all_empty_matches_witness:
  "pcre2_find_all empty_pattern_lib
     (Some \<lparr>code = Some 1, match_data = Some 2, match_context = Some 3,
            error_code = 100, error_offset = 0\<rparr>) (Some ''ab'') 2 True 3 =
   Some (2, [\<lparr>start = 0, end' = 0, valid = 1\<rparr>, \<lparr>start = 1, end' = 1, valid = 1\<rparr>])"
proof -
  have h: "\<forall>offset<2. \<exists>rc\<ge>0. pcre2_match empty_pattern_lib (1::nat) ''ab'' 2 offset = (rc, offset, offset)"
    by (simp add: empty_pattern_lib_def)
  have c: "code \<lparr>code = Some (1::nat), match_data = Some 2, match_context = Some 3,
            error_code = 100, error_offset = 0\<rparr> = Some 1"
    by simp
  have l: "(2::nat) \<le> 3" by simp
  have b: "(2::nat) < 2 ^ 31" by simp
  have u: "[0..<2] = [0, Suc 0]" by (simp add: upt_rec)
  from pcre2_find_all_empty_matches [OF h c l b] show ?thesis
    unfolding u by simp
qed

end
